theory Spec2Isabelle
  imports Main "HOL-Library.Word"
begin

section \<open>The CashAssembly bridge of bch-tx-editor\<close>

text \<open>
  The repository's JavaScript is a bridge between the editor and the compiler of the
  imported package \<^verbatim>\<open>@bitauth/libauth\<close>. Two variants of the bridge exist:
  \<^item> \<^verbatim>\<open>src/unnamed/part_000\<close> keeps one module-level compiler object, stores the script
    text in its script table under the key \<^verbatim>\<open>"script"\<close>, asks the compiler for the
    bytecode of that key and throws a formatted string when the compiler reports failure;
  \<^item> \<^verbatim>\<open>src/js-reexport/index.js\<close> calls the package's own \<^verbatim>\<open>cashAssemblyToBin\<close> and
    throws whatever it returns that is not a \<^verbatim>\<open>Uint8Array\<close>.

  The package itself is not part of the repository. Its functions appear below as
  parameters: \<open>generateBytecode\<close> is an arbitrary function of the configuration object it
  reads and of the request it is given, and the package's \<^verbatim>\<open>cashAssemblyToBin\<close> is an
  arbitrary function of the script text.
\<close>

subsection \<open>Data\<close>

text \<open>A \<^verbatim>\<open>Uint8Array\<close>.\<close>

type_synonym bytes = "8 word list"

text \<open>
  One entry of \<^verbatim>\<open>result.errors\<close>. The bridge reads its field \<^verbatim>\<open>error\<close> only
  (\<^verbatim>\<open>.map((err) => err.error)\<close>).
\<close>

record CompilationError =
  error :: string

text \<open>
  What \<^verbatim>\<open>compiler.generateBytecode\<close> returns. The bridge reads \<^verbatim>\<open>result.success\<close>,
  then \<^verbatim>\<open>result.bytecode\<close> on success and \<^verbatim>\<open>result.errorType\<close>, \<^verbatim>\<open>result.errors\<close>
  otherwise. The error type is the text that the template literal interpolates.
\<close>

datatype CompilationResult =
  success: Success (bytecode: bytes)
| Failure (errorType: string) (errors: "CompilationError list")

text \<open>The argument of \<^verbatim>\<open>generateBytecode\<close>: \<^verbatim>\<open>{ data: {}, scriptId: "script" }\<close>.\<close>

record CompilationRequest =
  data :: "string \<rightharpoonup> bytes"
  scriptId :: string

text \<open>Operation definitions are opaque to the bridge, which passes \<^verbatim>\<open>operations: {}\<close>.\<close>

typedecl operation

text \<open>The object given to \<^verbatim>\<open>createCompilerBCH\<close>: \<^verbatim>\<open>{ scripts: {}, operations: {} }\<close>.\<close>

record CompilerConfiguration =
  scripts :: "string \<rightharpoonup> string"
  operations :: "string \<rightharpoonup> operation"

text \<open>
  The compiler object. Its field \<open>configuration\<close> is mutable and shared with the
  method \<open>generateBytecode\<close>, which therefore receives the current configuration as an
  explicit argument.
\<close>

record Compiler =
  configuration :: CompilerConfiguration
  generateBytecode :: "CompilerConfiguration \<Rightarrow> CompilationRequest \<Rightarrow> CompilationResult"

text \<open>
  A JavaScript value as far as \<^verbatim>\<open>index.js\<close> tells them apart: the package's
  \<^verbatim>\<open>cashAssemblyToBin\<close> returns a \<^verbatim>\<open>Uint8Array\<close> or a string.
\<close>

datatype js_value = Uint8Array bytes | JSString string

subsection \<open>Operations\<close>

text \<open>\<^verbatim>\<open>Array.prototype.join(separator)\<close> on an array of strings.\<close>

fun join :: "string \<Rightarrow> string list \<Rightarrow> string" where
  "join sep [] = []"
| "join sep [x] = x"
| "join sep (x # y # ys) = x @ sep @ join sep (y # ys)"

text \<open>
  \<^verbatim>\<open>createCompilerBCH(configuration)\<close>, with the package's bytecode generator \<open>gen\<close> as
  a parameter: the compiler object holds the configuration it was given.
\<close>

definition createCompilerBCH ::
  "(CompilerConfiguration \<Rightarrow> CompilationRequest \<Rightarrow> CompilationResult) \<Rightarrow>
   CompilerConfiguration \<Rightarrow> Compiler" where
  "createCompilerBCH gen cfg = \<lparr>configuration = cfg, generateBytecode = gen\<rparr>"

text \<open>
  \<^verbatim>\<open>const compiler = createCompilerBCH({ scripts: {}, operations: {} });\<close>
  (part_000, line 6): the module-level compiler as it is when the module has loaded.
\<close>

definition compiler ::
  "(CompilerConfiguration \<Rightarrow> CompilationRequest \<Rightarrow> CompilationResult) \<Rightarrow> Compiler" where
  "compiler gen = createCompilerBCH gen \<lparr>scripts = Map.empty, operations = Map.empty\<rparr>"

text \<open>
  \<^verbatim>\<open>reexports.cashAssemblyToBin\<close> of part_000 (lines 11 to 21). The first argument is
  the module-level compiler as the call finds it; the result pairs the compiler as the
  call leaves it with the outcome: \<open>Inr\<close> the returned bytecode, \<open>Inl\<close> the thrown string.
\<close>

definition cashAssemblyToBin :: "Compiler \<Rightarrow> string \<Rightarrow> Compiler \<times> (string + bytes)" where
  "cashAssemblyToBin c script =
    (let c' = c\<lparr>configuration :=
                 (configuration c)\<lparr>scripts := (scripts (configuration c))(''script'' \<mapsto> script)\<rparr>\<rparr>;
         result = generateBytecode c' (configuration c')
                    \<lparr>data = Map.empty, scriptId = ''script''\<rparr>
     in (c',
         if success result then Inr (bytecode result)
         else Inl (''CashAssembly compilation '' @ errorType result @ '' error: '' @
                   join '' '' (map error (errors result)))))"

text \<open>
  \<^verbatim>\<open>reexports.cashAssemblyToBin\<close> of index.js (lines 5 to 12), with the package's
  \<^verbatim>\<open>cashAssemblyToBin\<close> as the parameter \<open>lib\<close>: \<open>Inr\<close> the returned array, \<open>Inl\<close> the
  thrown value.
\<close>

definition cashAssemblyToBin_reexport :: "(string \<Rightarrow> js_value) \<Rightarrow> string \<Rightarrow> js_value + bytes" where
  "cashAssemblyToBin_reexport lib script =
    (let result = lib script
     in case result of Uint8Array b \<Rightarrow> Inr b | _ \<Rightarrow> Inl result)"

text \<open>
  A session of the host: the scripts it compiles one after the other. An outcome that is
  thrown does not undo the assignment made before it, so the compiler is threaded through
  every call.
\<close>

fun calls :: "Compiler \<Rightarrow> string list \<Rightarrow> Compiler" where
  "calls c [] = c"
| "calls c (s # ss) = calls (fst (cashAssemblyToBin c s)) ss"

text \<open>
  Stand-ins for the package, for the concrete evaluations below: a bytecode generator and
  a \<^verbatim>\<open>cashAssemblyToBin\<close> that answer with a fixed value.
\<close>

definition stub_generateBytecode ::
  "CompilationResult \<Rightarrow> CompilerConfiguration \<Rightarrow> CompilationRequest \<Rightarrow> CompilationResult" where
  "stub_generateBytecode r cfg req = r"

definition stub_cashAssemblyToBin :: "js_value \<Rightarrow> string \<Rightarrow> js_value" where
  "stub_cashAssemblyToBin v script = v"

section \<open>Properties\<close>

subsection \<open>What one call does to the compiler\<close>

lemma cashAssemblyToBin_compiler:
  "fst (cashAssemblyToBin c s) =
     c\<lparr>configuration := (configuration c)\<lparr>scripts := (scripts (configuration c))(''script'' \<mapsto> s)\<rparr>\<rparr>"
  by (simp add: cashAssemblyToBin_def Let_def)

lemma cashAssemblyToBin_overwrites:
  "snd (cashAssemblyToBin (fst (cashAssemblyToBin c s1)) s2) = snd (cashAssemblyToBin c s2)"
  by (simp add: cashAssemblyToBin_def Let_def)

lemma cashAssemblyToBin_after_calls:
  "snd (cashAssemblyToBin (calls c ss) s) = snd (cashAssemblyToBin c s)"
proof (induction ss arbitrary: c)
  case Nil
  show ?case by simp
next
  case (Cons a ss)
  have "snd (cashAssemblyToBin (calls c (a # ss)) s) =
        snd (cashAssemblyToBin (fst (cashAssemblyToBin c a)) s)"
    using Cons.IH [of "fst (cashAssemblyToBin c a)"] by simp
  also have "\<dots> = snd (cashAssemblyToBin c s)"
    by (rule cashAssemblyToBin_overwrites)
  finally show ?case .
qed

subsection \<open>Failure is thrown, success is returned\<close>

text \<open>
  C1 claims that the compile entry point hands a \<^verbatim>\<open>CompilationResult\<close> back to the
  caller on success and on failure, and never throws. The code does otherwise, in both
  variants of the bridge: with a compiler that reports a parse failure, the entry point
  of part_000 throws the formatted string, and the entry point of index.js throws the
  string that the package returned.
\<close>

theorem cashAssemblyToBin_throws_on_failure:
  "snd (cashAssemblyToBin
          (compiler (stub_generateBytecode
             (Failure ''parse'' [\<lparr>error = ''unexpected input''\<rparr>])))
          ''OP_'') =
     Inl ''CashAssembly compilation parse error: unexpected input'' \<and>
   cashAssemblyToBin_reexport
     (stub_cashAssemblyToBin
        (JSString ''CashAssembly compilation parse error: unexpected input''))
     ''OP_'' =
     Inl (JSString ''CashAssembly compilation parse error: unexpected input'')"
  by (simp add: cashAssemblyToBin_def compiler_def createCompilerBCH_def
      stub_generateBytecode_def cashAssemblyToBin_reexport_def stub_cashAssemblyToBin_def)

text \<open>
  C1 as amended: for every compiler, every state of its script table and every script,
  the entry point of part_000 returns the bytecode itself when the compiler reports
  success, and throws the string \<^verbatim>\<open>CashAssembly compilation <errorType> error: \<close>
  followed by the diagnostics' messages joined by single spaces when it reports failure.
  The entry point of index.js returns the package's \<^verbatim>\<open>Uint8Array\<close> and throws the
  package's string.
\<close>

theorem cashAssemblyToBin_returns_bytecode_or_throws:
  "(let result = generateBytecode c
        ((configuration c)\<lparr>scripts := (scripts (configuration c))(''script'' \<mapsto> script)\<rparr>)
        \<lparr>data = Map.empty, scriptId = ''script''\<rparr>
    in (\<exists>bc. result = Success bc \<and> snd (cashAssemblyToBin c script) = Inr bc) \<or>
       (\<exists>t es. result = Failure t es \<and>
          snd (cashAssemblyToBin c script) =
            Inl (''CashAssembly compilation '' @ t @ '' error: '' @ join '' '' (map error es)))) \<and>
   ((\<exists>b. lib script = Uint8Array b \<and> cashAssemblyToBin_reexport lib script = Inr b) \<or>
    (\<exists>m. lib script = JSString m \<and> cashAssemblyToBin_reexport lib script = Inl (JSString m)))"
proof -
  define result where "result = generateBytecode c
        ((configuration c)\<lparr>scripts := (scripts (configuration c))(''script'' \<mapsto> script)\<rparr>)
        \<lparr>data = Map.empty, scriptId = ''script''\<rparr>"
  have part_000: "(\<exists>bc. result = Success bc \<and> snd (cashAssemblyToBin c script) = Inr bc) \<or>
       (\<exists>t es. result = Failure t es \<and>
          snd (cashAssemblyToBin c script) =
            Inl (''CashAssembly compilation '' @ t @ '' error: '' @ join '' '' (map error es)))"
  proof (cases result)
    case (Success bc)
    then show ?thesis
      unfolding result_def by (simp add: cashAssemblyToBin_def Let_def)
  next
    case (Failure t es)
    then show ?thesis
      unfolding result_def by (simp add: cashAssemblyToBin_def Let_def)
  qed
  have index_js: "(\<exists>b. lib script = Uint8Array b \<and> cashAssemblyToBin_reexport lib script = Inr b) \<or>
    (\<exists>m. lib script = JSString m \<and> cashAssemblyToBin_reexport lib script = Inl (JSString m))"
    by (cases "lib script") (simp_all add: cashAssemblyToBin_reexport_def)
  from part_000 index_js show ?thesis
    unfolding result_def by (simp add: Let_def)
qed

subsection \<open>The write to the script table\<close>

text \<open>
  C2 claims that a call of compile mutates no state that outlives it, in particular no
  script table shared between calls. The code does write such state: the freshly loaded
  module has an empty script table, and after one call that table holds the script text
  under the key \<^verbatim>\<open>"script"\<close>.
\<close>

theorem cashAssemblyToBin_mutates_script_table:
  "scripts (configuration (compiler (stub_generateBytecode (Success [0x51])))) ''script'' = None \<and>
   scripts (configuration (fst (cashAssemblyToBin
      (compiler (stub_generateBytecode (Success [0x51]))) ''OP_1''))) ''script'' = Some ''OP_1''"
  by (simp add: cashAssemblyToBin_def compiler_def createCompilerBCH_def Let_def)

text \<open>
  C2 as amended: a call writes one entry of the module-level compiler's script table, the
  entry \<^verbatim>\<open>"script"\<close>, which it sets to the script text; that write outlives the call.
  Every other entry of the table, the operations and the compiler's generator stay as
  they were, and the write does not reach the outcome of a later call: for every pair of
  calls, the outcome of the second is the outcome it has without the first.
\<close>

theorem cashAssemblyToBin_writes_one_slot:
  "configuration (fst (cashAssemblyToBin c s1)) =
     (configuration c)\<lparr>scripts := (scripts (configuration c))(''script'' \<mapsto> s1)\<rparr> \<and>
   generateBytecode (fst (cashAssemblyToBin c s1)) = generateBytecode c \<and>
   snd (cashAssemblyToBin (fst (cashAssemblyToBin c s1)) s2) = snd (cashAssemblyToBin c s2)"
  by (simp add: cashAssemblyToBin_def Let_def)

subsection \<open>Repeated calls\<close>

text \<open>
  C6: compiling the same script twice gives the same output both times, whatever the
  script table holds at the first call and whatever other scripts are compiled between
  the two calls. The outcome is the returned bytecode or the thrown string.
\<close>

theorem cashAssemblyToBin_idempotent:
  "snd (cashAssemblyToBin (calls (fst (cashAssemblyToBin c script)) between) script) =
   snd (cashAssemblyToBin c script)"
  by (simp only: cashAssemblyToBin_after_calls cashAssemblyToBin_overwrites)

text \<open>
  C10: the outcome of the exposed entry point depends on the script text alone. After
  any two histories of earlier calls on the module-level compiler, equal script strings
  give equal outcomes, and that outcome is the one the generator gives for the table
  that holds the script under \<^verbatim>\<open>"script"\<close> and nothing else, with empty data
  parameters and the script id \<^verbatim>\<open>"script"\<close>.
\<close>

theorem cashAssemblyToBin_depends_on_script_only:
  "snd (cashAssemblyToBin (calls (compiler gen) earlier) script) =
   snd (cashAssemblyToBin (calls (compiler gen) earlier') script) \<and>
   snd (cashAssemblyToBin (calls (compiler gen) earlier) script) =
     (let result = gen \<lparr>scripts = [''script'' \<mapsto> script], operations = Map.empty\<rparr>
                       \<lparr>data = Map.empty, scriptId = ''script''\<rparr>
      in if success result then Inr (bytecode result)
         else Inl (''CashAssembly compilation '' @ errorType result @ '' error: '' @
                   join '' '' (map error (errors result))))"
proof -
  have fresh: "snd (cashAssemblyToBin (compiler gen) script) =
     (let result = gen \<lparr>scripts = [''script'' \<mapsto> script], operations = Map.empty\<rparr>
                       \<lparr>data = Map.empty, scriptId = ''script''\<rparr>
      in if success result then Inr (bytecode result)
         else Inl (''CashAssembly compilation '' @ errorType result @ '' error: '' @
                   join '' '' (map error (errors result))))"
    by (simp add: cashAssemblyToBin_def compiler_def createCompilerBCH_def Let_def)
  show ?thesis
    by (simp only: cashAssemblyToBin_after_calls fresh simp_thms)
qed

end
